theory Spec2Isabelle
  imports Main
begin

section \<open>The reset orchestrator of \<^verbatim>\<open>composite_services/manage_game/app.py\<close>\<close>

text \<open>
  The module has two request handlers, \<^verbatim>\<open>reset_character_progress\<close> (partial reset) and
  \<^verbatim>\<open>full_game_reset\<close> (full reset), and the helper \<^verbatim>\<open>send_activity_log\<close>. Everything they
  do to the outside goes through \<^verbatim>\<open>requests\<close> (the collaborator services) and \<^verbatim>\<open>pika\<close>
  (the message broker). The model makes both explicit: a \<open>world\<close> gives the outcome of every
  outbound call, and every handler returns, next to its result, the list of the calls it
  made and of the messages it published, in order.

  Calls to \<^verbatim>\<open>logger\<close> are left out: they neither raise nor influence a result. Every outbound
  call is taken to come back, with a response or with an exception (a timeout is the
  exception \<^verbatim>\<open>requests\<close> raises for it).
\<close>

subsection \<open>Values\<close>

text \<open>JSON values as Python holds them after parsing; numbers are the integers.\<close>

datatype json =
    JNull
  | JBool bool
  | JInt int
  | JStr string
  | JList "json list"
  | JDict "(string \<times> json) list"

text \<open>
  An exception is known by what the handlers read of it, \<^verbatim>\<open>str(e)\<close>. \<open>AttributeError\<close> is
  the one the module can raise by itself, \<^verbatim>\<open>.get\<close> on a parsed body that is no dict; it
  carries the name of the offending type.
\<close>

datatype exn =
    Raised string
  | AttributeError string

text \<open>
  An f-string is kept as the list of its parts, in order: literal text (and values that are
  already \<^verbatim>\<open>str\<close>), and the values Python would render with \<^verbatim>\<open>str\<close>. Substituting a
  \<^verbatim>\<open>str\<close> into an f-string is concatenation of the parts.
\<close>

datatype part =
    Text string
  | Str_nat nat
  | Str_json json
  | Str_exn exn

type_synonym fstring = "part list"

subsection \<open>The collaborator services\<close>

datatype verb = GET | PUT | DELETE | POST

text \<open>
  The five URL shapes of the module, over the service base URLs of lines 15--19:
  \<^verbatim>\<open>{PLAYER_SERVICE_URL}/player/{id}\<close>, \<^verbatim>\<open>{INVENTORY_SERVICE_URL}/inventory/player/{id}\<close>,
  \<^verbatim>\<open>{ROOM_SERVICE_URL}/room/{id}\<close>,
  \<^verbatim>\<open>{PLAYER_ROOM_INTERACTION_SERVICE_URL}/player/{id}/reset\<close> and
  \<^verbatim>\<open>{ENEMY_SERVICE_URL}/reset\<close>.
\<close>

datatype url =
    Player_url nat
  | Inventory_player_url nat
  | Room_url nat
  | Interaction_reset_url nat
  | Enemy_reset_url

record request =
  verb :: verb
  url :: url
  json_arg :: "json option"
  timeout :: "nat option"

text \<open>
  Of a response the handlers read \<^verbatim>\<open>status_code\<close>, \<^verbatim>\<open>text\<close> and \<^verbatim>\<open>json()\<close>; the last one
  raises when the body is not JSON.
\<close>

record http_response =
  status_code :: nat
  resp_text :: string
  json_result :: "exn + json"

subsection \<open>The message broker\<close>

text \<open>The record \<^verbatim>\<open>message\<close> of lines 29--33.\<close>

record activity =
  log_player_id :: nat
  log_action :: fstring
  log_timestamp :: string

text \<open>
  What the broker does to the five \<^verbatim>\<open>pika\<close> calls of lines 26--40, in their order: the
  first one that raises, or none.
\<close>

datatype broker =
    Connect_fails exn
  | Channel_fails exn
  | Declare_fails exn
  | Publish_fails exn
  | Close_fails exn
  | Broker_ok

subsection \<open>The world and the observable effects\<close>

record world =
  http :: "request \<Rightarrow> exn + http_response"
  broker :: broker
  utcnow :: string

datatype event =
    Called request
  | Published activity

subsection \<open>Responses of the handlers\<close>

text \<open>
  The argument of \<^verbatim>\<open>jsonify\<close> is a dict literal: an association list, in the order written.
\<close>

datatype field =
    F_text fstring
  | F_nat nat
  | F_bool bool
  | F_list "field list"
  | F_dict "(string \<times> field) list"

record response =
  status :: nat
  body :: "(string \<times> field) list"

text \<open>The dict \<^verbatim>\<open>reset_results\<close> of lines 79--84; its four keys are never added to.\<close>

record reset_results =
  player :: bool
  inventory :: bool
  rooms :: bool
  errors :: "fstring list"

definition jsonify_results :: "reset_results \<Rightarrow> (string \<times> field) list" where
  "jsonify_results r =
     [(''player'', F_bool (player r)),
      (''inventory'', F_bool (inventory r)),
      (''rooms'', F_bool (rooms r)),
      (''errors'', F_list (map F_text (errors r)))]"

subsection \<open>\<^verbatim>\<open>send_activity_log\<close>, lines 24--43\<close>

text \<open>
  The body of the \<^verbatim>\<open>try\<close>. The message is on the queue once \<^verbatim>\<open>basic_publish\<close> has
  returned, also when \<^verbatim>\<open>connection.close()\<close> raises afterwards.
\<close>

definition publish_activity :: "world \<Rightarrow> nat \<Rightarrow> fstring \<Rightarrow> (exn + unit) \<times> event list" where
  "publish_activity w player_id action =
     (let message = \<lparr>log_player_id = player_id, log_action = action,
                      log_timestamp = utcnow w\<rparr>
      in case broker w of
           Connect_fails e \<Rightarrow> (Inl e, [])
         | Channel_fails e \<Rightarrow> (Inl e, [])
         | Declare_fails e \<Rightarrow> (Inl e, [])
         | Publish_fails e \<Rightarrow> (Inl e, [])
         | Close_fails e \<Rightarrow> (Inl e, [Published message])
         | Broker_ok \<Rightarrow> (Inr (), [Published message]))"

text \<open>The \<^verbatim>\<open>except Exception\<close> of line 42 logs and returns.\<close>

definition send_activity_log :: "world \<Rightarrow> nat \<Rightarrow> fstring \<Rightarrow> (exn + unit) \<times> event list" where
  "send_activity_log w player_id action =
     (case publish_activity w player_id action of
        (Inl e, evs) \<Rightarrow> (Inr (), evs)
      | (Inr u, evs) \<Rightarrow> (Inr u, evs))"

subsection \<open>Reading the player record\<close>

fun type_name :: "json \<Rightarrow> string" where
  "type_name JNull = ''NoneType''"
| "type_name (JBool b) = ''bool''"
| "type_name (JInt i) = ''int''"
| "type_name (JStr s) = ''str''"
| "type_name (JList xs) = ''list''"
| "type_name (JDict d) = ''dict''"

text \<open>\<^verbatim>\<open>v.get(key, default)\<close>: only a dict has the method.\<close>

fun py_get :: "json \<Rightarrow> string \<Rightarrow> 'a \<Rightarrow> (json \<Rightarrow> 'a) \<Rightarrow> exn + 'a" where
  "py_get (JDict d) key dflt found =
     Inr (case map_of d key of Some v \<Rightarrow> found v | None \<Rightarrow> dflt)"
| "py_get v key dflt found = Inl (AttributeError (type_name v))"

text \<open>
  Lines 58 and 97:
  \<^verbatim>\<open>player_data.get("max_health", player_data.get("MaxHealth", 100))\<close>; the inner call
  is evaluated first.
\<close>

definition get_max_health :: "json \<Rightarrow> exn + json" where
  "get_max_health player_data =
     (case py_get player_data ''MaxHealth'' (JInt 100) id of
        Inl e \<Rightarrow> Inl e
      | Inr dflt \<Rightarrow> py_get player_data ''max_health'' dflt id)"

text \<open>Line 93: \<^verbatim>\<open>player_data.get("name", f"Player {player_id}")\<close>, as it is later formatted.\<close>

definition get_player_name :: "json \<Rightarrow> nat \<Rightarrow> exn + fstring" where
  "get_player_name player_data player_id =
     py_get player_data ''name'' [Text ''Player '', Str_nat player_id] (\<lambda>v. [Str_json v])"

subsection \<open>The requests the handlers send\<close>

definition player_lookup_request :: "nat \<Rightarrow> request" where
  "player_lookup_request player_id =
     \<lparr>verb = GET, url = Player_url player_id, json_arg = None, timeout = None\<rparr>"

text \<open>Lines 61--62.\<close>

definition progress_update_request :: "nat \<Rightarrow> json \<Rightarrow> request" where
  "progress_update_request player_id max_health =
     \<lparr>verb = PUT, url = Player_url player_id,
      json_arg = Some (JDict [(''current_health'', max_health), (''room_id'', JInt 0),
                              (''sum_score'', JInt 0)]),
      timeout = None\<rparr>"

text \<open>Line 65.\<close>

definition enemy_reset_request :: request where
  "enemy_reset_request = \<lparr>verb = GET, url = Enemy_reset_url, json_arg = None, timeout = None\<rparr>"

text \<open>Lines 101--105.\<close>

definition player_update_request :: "nat \<Rightarrow> json \<Rightarrow> request" where
  "player_update_request player_id max_health =
     \<lparr>verb = PUT, url = Player_url player_id,
      json_arg = Some (JDict [(''current_health'', max_health), (''max_health'', max_health),
                              (''damage'', JInt 10), (''room_id'', JInt 0),
                              (''sum_score'', JInt 0)]),
      timeout = Some 5\<rparr>"

text \<open>Lines 118--121.\<close>

definition inventory_delete_request :: "nat \<Rightarrow> request" where
  "inventory_delete_request player_id =
     \<lparr>verb = DELETE, url = Inventory_player_url player_id, json_arg = None,
      timeout = Some 5\<rparr>"

text \<open>Lines 135--138.\<close>

definition interaction_reset_request :: "nat \<Rightarrow> request" where
  "interaction_reset_request player_id =
     \<lparr>verb = POST, url = Interaction_reset_url player_id, json_arg = None,
      timeout = Some 5\<rparr>"

text \<open>Lines 164--168.\<close>

definition room_update_request :: "nat \<Rightarrow> json \<Rightarrow> request" where
  "room_update_request room_id room_data =
     \<lparr>verb = PUT, url = Room_url room_id, json_arg = Some room_data, timeout = Some 5\<rparr>"

text \<open>
  The list \<^verbatim>\<open>room_defaults\<close> of lines 154--158, each entry as line 162 splits it: the
  popped \<^verbatim>\<open>room_id\<close> and the dict that is left.
\<close>

definition room_defaults :: "(nat \<times> json) list" where
  "room_defaults =
     [(1, JDict [(''item_ids'', JList [JInt 1, JInt 2]), (''enemy_ids'', JList []),
                 (''door_locked'', JBool False)]),
      (2, JDict [(''item_ids'', JList [JInt 3, JInt 5]), (''enemy_ids'', JList [JInt 1]),
                 (''door_locked'', JBool False)]),
      (3, JDict [(''item_ids'', JList [JInt 4]), (''enemy_ids'', JList [JInt 2]),
                 (''door_locked'', JBool True)])]"

subsection \<open>\<^verbatim>\<open>reset_character_progress\<close>, lines 45--70\<close>

text \<open>
  No call of this handler is inside a \<^verbatim>\<open>try\<close>: an exception of any of them leaves the
  handler (\<open>Inl\<close>). The responses of the two mutating calls are dropped.
\<close>

definition reset_character_progress :: "world \<Rightarrow> nat \<Rightarrow> (exn + response) \<times> event list" where
  "reset_character_progress w player_id =
     (let t0 = [Called (player_lookup_request player_id)] in
      case http w (player_lookup_request player_id) of
        Inl e \<Rightarrow> (Inl e, t0)
      | Inr player_response \<Rightarrow>
         (if status_code player_response \<noteq> 200
          then (Inr \<lparr>status = 404, body = [(''error'', F_text [Text ''Player not found''])]\<rparr>, t0)
          else
           (case json_result player_response of
              Inl e \<Rightarrow> (Inl e, t0)
            | Inr player_data \<Rightarrow>
               (case get_max_health player_data of
                  Inl e \<Rightarrow> (Inl e, t0)
                | Inr max_health \<Rightarrow>
                   (let t1 = t0 @ [Called (progress_update_request player_id max_health)] in
                    case http w (progress_update_request player_id max_health) of
                      Inl e \<Rightarrow> (Inl e, t1)
                    | Inr _ \<Rightarrow>
                       (let t2 = t1 @ [Called enemy_reset_request] in
                        case http w enemy_reset_request of
                          Inl e \<Rightarrow> (Inl e, t2)
                        | Inr _ \<Rightarrow>
                           (case send_activity_log w player_id [Text ''Game progress reset''] of
                              (Inl e, evs) \<Rightarrow> (Inl e, t2 @ evs)
                            | (Inr _, evs) \<Rightarrow>
                                (Inr \<lparr>status = 200,
                                      body = [(''message'',
                                               F_text [Text ''Progress reset for player '',
                                                       Str_nat player_id, Text ''.''])]\<rparr>,
                                 t2 @ evs))))))))"

subsection \<open>\<^verbatim>\<open>full_game_reset\<close>, lines 72--215\<close>

text \<open>What the steps work on: the dict \<^verbatim>\<open>reset_results\<close> and the effects so far.\<close>

record state =
  results :: reset_results
  trace :: "event list"

definition record_error :: "fstring \<Rightarrow> state \<Rightarrow> state" where
  "record_error msg s = s\<lparr>results := (results s)\<lparr>errors := errors (results s) @ [msg]\<rparr>\<rparr>"

definition called :: "request \<Rightarrow> state \<Rightarrow> state" where
  "called rq s = s\<lparr>trace := trace s @ [Called rq]\<rparr>"

text \<open>Step 2, lines 100--114.\<close>

definition reset_player :: "world \<Rightarrow> nat \<Rightarrow> json \<Rightarrow> state \<Rightarrow> state" where
  "reset_player w player_id max_health s =
     (let s1 = called (player_update_request player_id max_health) s in
      case http w (player_update_request player_id max_health) of
        Inr player_reset \<Rightarrow>
          if status_code player_reset = 200
          then s1\<lparr>results := (results s1)\<lparr>player := True\<rparr>\<rparr>
          else record_error [Text ''Player reset failed: '', Text (resp_text player_reset)] s1
      | Inl e \<Rightarrow> record_error [Text ''Player reset error: '', Str_exn e] s1)"

text \<open>Step 3, lines 117--130.\<close>

definition clear_inventory :: "world \<Rightarrow> nat \<Rightarrow> state \<Rightarrow> state" where
  "clear_inventory w player_id s =
     (let s1 = called (inventory_delete_request player_id) s in
      case http w (inventory_delete_request player_id) of
        Inr inventory_reset \<Rightarrow>
          if status_code inventory_reset \<in> set [200, 404]
          then s1\<lparr>results := (results s1)\<lparr>inventory := True\<rparr>\<rparr>
          else record_error [Text ''Inventory reset failed: '', Text (resp_text inventory_reset)] s1
      | Inl e \<Rightarrow> record_error [Text ''Inventory reset error: '', Str_exn e] s1)"

text \<open>Step 3.5, lines 133--147.\<close>

definition reset_interactions :: "world \<Rightarrow> nat \<Rightarrow> state \<Rightarrow> state" where
  "reset_interactions w player_id s =
     (let s1 = called (interaction_reset_request player_id) s in
      case http w (interaction_reset_request player_id) of
        Inr player_interaction_reset \<Rightarrow>
          if status_code player_interaction_reset = 200
          then s1
          else record_error [Text ''Player interaction reset failed: '',
                             Text (resp_text player_interaction_reset)] s1
      | Inl e \<Rightarrow> record_error [Text ''Player interaction reset error: '', Str_exn e] s1)"

text \<open>
  Step 4, the loop of lines 161--176, with the flag \<^verbatim>\<open>room_update_success\<close> next to the
  state.
\<close>

fun room_loop :: "world \<Rightarrow> (nat \<times> json) list \<Rightarrow> bool \<times> state \<Rightarrow> bool \<times> state" where
  "room_loop w [] (room_update_success, s) = (room_update_success, s)"
| "room_loop w ((room_id, room_data) # rest) (room_update_success, s) =
     (let s1 = called (room_update_request room_id room_data) s in
      case http w (room_update_request room_id room_data) of
        Inr room_reset \<Rightarrow>
          if status_code room_reset \<noteq> 200
          then room_loop w rest
                 (False, record_error [Text ''Room '', Str_nat room_id, Text '' reset failed: '',
                                       Text (resp_text room_reset)] s1)
          else room_loop w rest (room_update_success, s1)
      | Inl e \<Rightarrow>
          room_loop w rest
            (False, record_error [Text ''Room '', Str_nat room_id, Text '' reset error: '',
                                  Str_exn e] s1))"

text \<open>
  Lines 152--183. Nothing between the outer \<^verbatim>\<open>try\<close> and the loop's own \<^verbatim>\<open>try\<close> can
  raise, so the handler of line 181 has no branch here.
\<close>

definition reset_rooms :: "world \<Rightarrow> state \<Rightarrow> state" where
  "reset_rooms w s =
     (case room_loop w room_defaults (True, s) of
        (room_update_success, s1) \<Rightarrow>
          s1\<lparr>results := (results s1)\<lparr>rooms := room_update_success\<rparr>\<rparr>)"

text \<open>Lines 189--208.\<close>

definition report :: "nat \<Rightarrow> fstring \<Rightarrow> reset_results \<Rightarrow> response" where
  "report player_id player_name r =
     (let overall_success = (player r \<and> inventory r \<and> rooms r) in
      if overall_success
      then \<lparr>status = 200,
            body = [(''message'', F_text ([Text ''Game fully reset for ''] @ player_name)),
                    (''player_id'', F_nat player_id),
                    (''reset_details'', F_dict (jsonify_results r))]\<rparr>
      else \<lparr>status = 207,
            body = [(''message'', F_text ([Text ''Game partially reset for ''] @ player_name
                                           @ [Text '' - some errors occurred''])),
                    (''player_id'', F_nat player_id),
                    (''reset_details'', F_dict (jsonify_results r))]\<rparr>)"

text \<open>
  The body of the outer \<^verbatim>\<open>try\<close>, lines 87--208. An exception that leaves it comes with
  \<^verbatim>\<open>reset_results\<close> as it is at that moment. The state starts with the dict of lines
  79--84 and the lookup of line 88 as the only call made.
\<close>

definition initial_results :: reset_results where
  "initial_results = \<lparr>player = False, inventory = False, rooms = False, errors = []\<rparr>"

definition initial_state :: "nat \<Rightarrow> state" where
  "initial_state player_id =
     \<lparr>results = initial_results, trace = [Called (player_lookup_request player_id)]\<rparr>"

definition run_steps :: "world \<Rightarrow> nat \<Rightarrow> json \<Rightarrow> state \<Rightarrow> state" where
  "run_steps w player_id max_health s =
     reset_rooms w (reset_interactions w player_id
       (clear_inventory w player_id (reset_player w player_id max_health s)))"

definition full_game_reset_try ::
  "world \<Rightarrow> nat \<Rightarrow> (exn \<times> reset_results + response) \<times> event list" where
  "full_game_reset_try w player_id =
     (let s0 = initial_state player_id in
      case http w (player_lookup_request player_id) of
        Inl e \<Rightarrow> (Inl (e, results s0), trace s0)
      | Inr player_response \<Rightarrow>
         (if status_code player_response \<noteq> 200
          then (Inr \<lparr>status = 404, body = [(''error'', F_text [Text ''Player not found''])]\<rparr>,
                trace s0)
          else
           (case json_result player_response of
              Inl e \<Rightarrow> (Inl (e, results s0), trace s0)
            | Inr player_data \<Rightarrow>
               (case get_player_name player_data player_id of
                  Inl e \<Rightarrow> (Inl (e, results s0), trace s0)
                | Inr player_name \<Rightarrow>
                   (case get_max_health player_data of
                      Inl e \<Rightarrow> (Inl (e, results s0), trace s0)
                    | Inr max_health \<Rightarrow>
                       (let s4 = run_steps w player_id max_health s0 in
                        case send_activity_log w player_id
                               ([Text ''Full game reset performed for ''] @ player_name) of
                          (Inl e, evs) \<Rightarrow> (Inl (e, results s4), trace s4 @ evs)
                        | (Inr _, evs) \<Rightarrow>
                            (Inr (report player_id player_name (results s4)),
                             trace s4 @ evs)))))))"

text \<open>The handler of lines 210--215.\<close>

definition full_game_reset :: "world \<Rightarrow> nat \<Rightarrow> (exn + response) \<times> event list" where
  "full_game_reset w player_id =
     (case full_game_reset_try w player_id of
        (Inl (e, reset_results), evs) \<Rightarrow>
          (Inr \<lparr>status = 500,
                body = [(''error'', F_text [Text ''Failed to reset game: '', Str_exn e]),
                        (''reset_details'', F_dict (jsonify_results reset_results))]\<rparr>, evs)
      | (Inr rsp, evs) \<Rightarrow> (Inr rsp, evs))"

subsection \<open>Notions used to state the properties\<close>

text \<open>The \<^verbatim>\<open>reset_results\<close> that line 189 reads, for a player whose lookup gave \<open>max_health\<close>.\<close>

definition final_results :: "world \<Rightarrow> nat \<Rightarrow> json \<Rightarrow> reset_results" where
  "final_results w player_id max_health =
     results (run_steps w player_id max_health (initial_state player_id))"

text \<open>
  The lookup passes the check of lines 89--90 and the reads of lines 92--97 give the
  player's name and maximal health: the handlers go on to their mutating calls.
\<close>

definition player_resolved :: "world \<Rightarrow> nat \<Rightarrow> fstring \<Rightarrow> json \<Rightarrow> bool" where
  "player_resolved w player_id player_name max_health =
     (case http w (player_lookup_request player_id) of
        Inl e \<Rightarrow> False
      | Inr player_response \<Rightarrow>
          status_code player_response = 200 \<and>
          (case json_result player_response of
             Inl e \<Rightarrow> False
           | Inr player_data \<Rightarrow>
               get_player_name player_data player_id = Inr player_name \<and>
               get_max_health player_data = Inr max_health))"

text \<open>The requests among the effects, in the order they were made.\<close>

fun calls :: "event list \<Rightarrow> request list" where
  "calls [] = []"
| "calls (Called rq # evs) = rq # calls evs"
| "calls (Published m # evs) = calls evs"

text \<open>
  A call succeeded when it came back with one of the statuses its step accepts; a
  transport error, a timeout and any other status are its failures.
\<close>

definition succeeded :: "nat list \<Rightarrow> exn + http_response \<Rightarrow> bool" where
  "succeeded accepted outcome =
     (case outcome of Inr rsp \<Rightarrow> status_code rsp \<in> set accepted | Inl e \<Rightarrow> False)"

text \<open>
  The steps of the full plan, each request with the statuses its step accepts (lines 106,
  122, 140 and 169).
\<close>

definition full_plan :: "nat \<Rightarrow> json \<Rightarrow> (request \<times> nat list) list" where
  "full_plan player_id max_health =
     [(player_update_request player_id max_health, [200]),
      (inventory_delete_request player_id, [200, 404]),
      (interaction_reset_request player_id, [200])]
     @ map (\<lambda>room. (room_update_request (fst room) (snd room), [200])) room_defaults"

definition step_failed :: "world \<Rightarrow> request \<times> nat list \<Rightarrow> bool" where
  "step_failed w step = (\<not> succeeded (snd step) (http w (fst step)))"

definition room_ok :: "world \<Rightarrow> nat \<times> json \<Rightarrow> bool" where
  "room_ok w room = succeeded [200] (http w (room_update_request (fst room) (snd room)))"

text \<open>What each step appends to \<^verbatim>\<open>reset_results["errors"]\<close>, read off its branches.\<close>

definition player_entries :: "world \<Rightarrow> nat \<Rightarrow> json \<Rightarrow> fstring list" where
  "player_entries w player_id max_health =
     (case http w (player_update_request player_id max_health) of
        Inr rsp \<Rightarrow>
          if status_code rsp = 200 then []
          else [[Text ''Player reset failed: '', Text (resp_text rsp)]]
      | Inl e \<Rightarrow> [[Text ''Player reset error: '', Str_exn e]])"

definition inventory_entries :: "world \<Rightarrow> nat \<Rightarrow> fstring list" where
  "inventory_entries w player_id =
     (case http w (inventory_delete_request player_id) of
        Inr rsp \<Rightarrow>
          if status_code rsp = 200 \<or> status_code rsp = 404 then []
          else [[Text ''Inventory reset failed: '', Text (resp_text rsp)]]
      | Inl e \<Rightarrow> [[Text ''Inventory reset error: '', Str_exn e]])"

definition interaction_entries :: "world \<Rightarrow> nat \<Rightarrow> fstring list" where
  "interaction_entries w player_id =
     (case http w (interaction_reset_request player_id) of
        Inr rsp \<Rightarrow>
          if status_code rsp = 200 then []
          else [[Text ''Player interaction reset failed: '', Text (resp_text rsp)]]
      | Inl e \<Rightarrow> [[Text ''Player interaction reset error: '', Str_exn e]])"

definition room_entries :: "world \<Rightarrow> nat \<times> json \<Rightarrow> fstring list" where
  "room_entries w room =
     (case http w (room_update_request (fst room) (snd room)) of
        Inr rsp \<Rightarrow>
          if status_code rsp = 200 then []
          else [[Text ''Room '', Str_nat (fst room), Text '' reset failed: '',
                 Text (resp_text rsp)]]
      | Inl e \<Rightarrow> [[Text ''Room '', Str_nat (fst room), Text '' reset error: '', Str_exn e]])"

text \<open>
  What a caller reads in a response: the list under \<^verbatim>\<open>reset_details.errors\<close> and the
  boolean under a key of \<^verbatim>\<open>reset_details\<close>, where the body has them.
\<close>

fun text_entries :: "field list \<Rightarrow> fstring list" where
  "text_entries [] = []"
| "text_entries (F_text e # fs) = e # text_entries fs"
| "text_entries (f # fs) = text_entries fs"

definition reported_errors :: "response \<Rightarrow> fstring list" where
  "reported_errors rsp =
     (case map_of (body rsp) ''reset_details'' of
        Some (F_dict details) \<Rightarrow>
          (case map_of details ''errors'' of
             Some (F_list entries) \<Rightarrow> text_entries entries
           | _ \<Rightarrow> [])
      | _ \<Rightarrow> [])"

definition reported_flag :: "string \<Rightarrow> response \<Rightarrow> bool option" where
  "reported_flag key rsp =
     (case map_of (body rsp) ''reset_details'' of
        Some (F_dict details) \<Rightarrow>
          (case map_of details key of Some (F_bool b) \<Rightarrow> Some b | _ \<Rightarrow> None)
      | _ \<Rightarrow> None)"

definition reported_keys :: "response \<Rightarrow> string list" where
  "reported_keys rsp =
     (case map_of (body rsp) ''reset_details'' of
        Some (F_dict details) \<Rightarrow> map fst details
      | _ \<Rightarrow> [])"

text \<open>The world in which one request has another outcome.\<close>

definition with_outcome :: "request \<Rightarrow> exn + http_response \<Rightarrow> world \<Rightarrow> world" where
  "with_outcome rq outcome w = w\<lparr>http := (http w)(rq := outcome)\<rparr>"

text \<open>
  Follows the spec's words (section 3), to be compared with \<open>report\<close>: full success is
  every entry of the per-collaborator map true and no error; partial success is at least
  one entry true, and one false or an error.
\<close>

definition spec_full_success :: "reset_results \<Rightarrow> bool" where
  "spec_full_success r = (player r \<and> inventory r \<and> rooms r \<and> errors r = [])"

definition spec_partial_success :: "reset_results \<Rightarrow> bool" where
  "spec_partial_success r =
     ((player r \<or> inventory r \<or> rooms r) \<and>
      (\<not> player r \<or> \<not> inventory r \<or> \<not> rooms r \<or> errors r \<noteq> []))"

subsection \<open>Concrete worlds\<close>

text \<open>
  Player 42 exists, with \<^verbatim>\<open>max_health = 100\<close>; every service answers 200 and the broker
  takes the message.
\<close>

definition hero :: json where
  "hero = JDict [(''name'', JStr ''Hero''), (''max_health'', JInt 100)]"

definition answer :: "nat \<Rightarrow> string \<Rightarrow> http_response" where
  "answer code txt =
     \<lparr>status_code = code, resp_text = txt, json_result = Inl (Raised ''not JSON'')\<rparr>"

definition found :: http_response where
  "found = \<lparr>status_code = 200, resp_text = ''hero'', json_result = Inr hero\<rparr>"

definition all_ok :: world where
  "all_ok =
     \<lparr>http = (\<lambda>rq. if rq = player_lookup_request 42 then Inr found else Inr (answer 200 ''ok'')),
      broker = Broker_ok,
      utcnow = ''2024-01-01T00:00:00''\<rparr>"

text \<open>The interaction-history service answers 500; everything else as in \<open>all_ok\<close>.\<close>

definition interaction_down :: world where
  "interaction_down =
     with_outcome (interaction_reset_request 42) (Inr (answer 500 ''down'')) all_ok"

text \<open>The player service knows no player 999.\<close>

definition player_missing :: world where
  "player_missing =
     with_outcome (player_lookup_request 999) (Inr (answer 404 ''no such player'')) all_ok"

text \<open>Every call after the lookup times out.\<close>

definition steps_down :: world where
  "steps_down =
     \<lparr>http = (\<lambda>rq. if rq = player_lookup_request 42 then Inr found
                    else Inl (Raised ''timed out'')),
      broker = Connect_fails (Raised ''connection refused''),
      utcnow = ''2024-01-01T00:00:00''\<rparr>"

text \<open>The enemy service refuses the connection.\<close>

definition enemy_down :: world where
  "enemy_down = with_outcome enemy_reset_request (Inl (Raised ''connection refused'')) all_ok"

text \<open>The partial reset's update of the player times out.\<close>

definition progress_update_down :: world where
  "progress_update_down =
     with_outcome (progress_update_request 42 (JInt 100)) (Inl (Raised ''timed out'')) all_ok"

text \<open>The partial reset's two mutating calls are answered with 500.\<close>

definition mutations_rejected :: world where
  "mutations_rejected =
     with_outcome (progress_update_request 42 (JInt 100)) (Inr (answer 500 ''no''))
       (with_outcome enemy_reset_request (Inr (answer 503 ''busy'')) all_ok)"

text \<open>The inventory service has nothing for the player.\<close>

definition inventory_absent :: world where
  "inventory_absent =
     with_outcome (inventory_delete_request 42) (Inr (answer 404 ''no inventory'')) all_ok"

text \<open>The update of room 2 is answered with 500.\<close>

text \<open>The player service cannot be reached.\<close>

definition lookup_down :: world where
  "lookup_down =
     with_outcome (player_lookup_request 42) (Inl (Raised ''connection refused'')) all_ok"

definition room1_data :: json where
  "room1_data =
     JDict [(''item_ids'', JList [JInt 1, JInt 2]), (''enemy_ids'', JList []),
            (''door_locked'', JBool False)]"

definition room2_data :: json where
  "room2_data =
     JDict [(''item_ids'', JList [JInt 3, JInt 5]), (''enemy_ids'', JList [JInt 1]),
            (''door_locked'', JBool False)]"

definition room2_down :: world where
  "room2_down =
     with_outcome (room_update_request 2 room2_data) (Inr (answer 500 ''room locked'')) all_ok"

text \<open>
  An entry of \<^verbatim>\<open>errors\<close> is about a room when it starts as the two f-strings of lines 172
  and 176 do.
\<close>

definition room_prefix :: "nat \<Rightarrow> fstring \<Rightarrow> bool" where
  "room_prefix room_id entry = (take 2 entry = [Text ''Room '', Str_nat room_id])"

section \<open>What the steps do\<close>

text \<open>
  Each step of the full plan makes its one call, whatever came before, and changes of
  \<^verbatim>\<open>reset_results\<close> only its own flag and the list of errors.
\<close>

lemma reset_player_results:
  "results (reset_player w pid mh s) =
     (results s)\<lparr>player := player (results s) \<or> succeeded [200] (http w (player_update_request pid mh)),
                 errors := errors (results s) @ player_entries w pid mh\<rparr>"
  by (simp add: reset_player_def called_def record_error_def succeeded_def player_entries_def Let_def
           split: sum.splits)

lemma reset_player_trace:
  "trace (reset_player w pid mh s) = trace s @ [Called (player_update_request pid mh)]"
  by (simp add: reset_player_def called_def record_error_def Let_def split: sum.splits)

lemma clear_inventory_results:
  "results (clear_inventory w pid s) =
     (results s)\<lparr>inventory := inventory (results s) \<or> succeeded [200, 404] (http w (inventory_delete_request pid)),
                 errors := errors (results s) @ inventory_entries w pid\<rparr>"
  by (simp add: clear_inventory_def called_def record_error_def succeeded_def
           inventory_entries_def Let_def split: sum.splits)

lemma clear_inventory_trace:
  "trace (clear_inventory w pid s) = trace s @ [Called (inventory_delete_request pid)]"
  by (simp add: clear_inventory_def called_def record_error_def Let_def split: sum.splits)

lemma reset_interactions_results:
  "results (reset_interactions w pid s) =
     (results s)\<lparr>errors := errors (results s) @ interaction_entries w pid\<rparr>"
  by (simp add: reset_interactions_def called_def record_error_def interaction_entries_def Let_def
           split: sum.splits)

lemma reset_interactions_trace:
  "trace (reset_interactions w pid s) = trace s @ [Called (interaction_reset_request pid)]"
  by (simp add: reset_interactions_def called_def record_error_def Let_def split: sum.splits)

lemma room_loop_eq:
  "room_loop w rs (b, s) =
     ((b \<and> list_all (room_ok w) rs),
      s\<lparr>results := (results s)\<lparr>errors := errors (results s) @ concat (map (room_entries w) rs)\<rparr>,
        trace := trace s @ map (\<lambda>room. Called (room_update_request (fst room) (snd room))) rs\<rparr>)"
proof (induction rs arbitrary: b s)
  case Nil
  show ?case by simp
next
  case (Cons room rest)
  obtain room_id room_data where room: "room = (room_id, room_data)"
    by (cases room)
  show ?case
  proof (cases "http w (room_update_request room_id room_data)")
    case (Inl e)
    then show ?thesis
      by (simp add: room Cons.IH room_ok_def succeeded_def room_entries_def called_def
               record_error_def)
  next
    case (Inr rsp)
    then show ?thesis
      by (cases "status_code rsp = 200")
         (simp_all add: room Cons.IH room_ok_def succeeded_def room_entries_def called_def
               record_error_def)
  qed
qed

lemma reset_rooms_results:
  "results (reset_rooms w s) =
     (results s)\<lparr>rooms := list_all (room_ok w) room_defaults,
                 errors := errors (results s) @ concat (map (room_entries w) room_defaults)\<rparr>"
  by (simp add: reset_rooms_def room_loop_eq)

lemma reset_rooms_trace:
  "trace (reset_rooms w s) =
     trace s @ map (\<lambda>room. Called (room_update_request (fst room) (snd room))) room_defaults"
  by (simp add: reset_rooms_def room_loop_eq)

lemma run_steps_results:
  "results (run_steps w pid mh s) =
     (results s)
       \<lparr>player := player (results s) \<or> succeeded [200] (http w (player_update_request pid mh)),
        inventory := inventory (results s)
                       \<or> succeeded [200, 404] (http w (inventory_delete_request pid)),
        rooms := list_all (room_ok w) room_defaults,
        errors := errors (results s) @ player_entries w pid mh @ inventory_entries w pid
                    @ interaction_entries w pid @ concat (map (room_entries w) room_defaults)\<rparr>"
  by (simp add: run_steps_def reset_rooms_results reset_interactions_results
           clear_inventory_results reset_player_results)

lemma run_steps_trace:
  "trace (run_steps w pid mh s) =
     trace s @ map Called (map fst (full_plan pid mh))"
  by (simp add: run_steps_def reset_rooms_trace reset_interactions_trace
           clear_inventory_trace reset_player_trace full_plan_def comp_def)

lemma final_results_eq:
  "final_results w pid mh =
     \<lparr>player = succeeded [200] (http w (player_update_request pid mh)),
      inventory = succeeded [200, 404] (http w (inventory_delete_request pid)),
      rooms = list_all (room_ok w) room_defaults,
      errors = player_entries w pid mh @ inventory_entries w pid
                 @ interaction_entries w pid @ concat (map (room_entries w) room_defaults)\<rparr>"
  by (simp add: final_results_def run_steps_results initial_state_def initial_results_def)

lemma send_activity_log_eq:
  "send_activity_log w pid action = (Inr (), snd (publish_activity w pid action))"
  by (cases "publish_activity w pid action"; cases "fst (publish_activity w pid action)")
     (auto simp: send_activity_log_def)

lemma calls_append: "calls (xs @ ys) = calls xs @ calls ys"
  by (induction xs rule: calls.induct) simp_all

lemma calls_Called: "calls (map Called rqs) = rqs"
  by (induction rqs) simp_all

lemma calls_publish_activity: "calls (snd (publish_activity w pid action)) = []"
  by (simp add: publish_activity_def Let_def split: broker.splits)

lemma full_game_reset_resolved:
  assumes "player_resolved w pid name mh"
  shows "full_game_reset w pid =
           (Inr (report pid name (final_results w pid mh)),
            Called (player_lookup_request pid) # map Called (map fst (full_plan pid mh))
              @ snd (publish_activity w pid ([Text ''Full game reset performed for ''] @ name)))"
  using assms
  by (auto simp: player_resolved_def full_game_reset_def full_game_reset_try_def Let_def
        send_activity_log_eq final_results_def run_steps_trace initial_state_def
        split: sum.splits)

lemma full_game_reset_unresolved:
  assumes "\<forall>name mh. \<not> player_resolved w pid name mh"
  shows "snd (full_game_reset w pid) = [Called (player_lookup_request pid)]"
    and "\<exists>rsp. fst (full_game_reset w pid) = Inr rsp \<and> (status rsp = 404 \<or> status rsp = 500)"
  using assms
  by (auto simp: player_resolved_def full_game_reset_def full_game_reset_try_def Let_def
        initial_state_def split: sum.splits)

lemma http_with_outcome:
  "http (with_outcome rq outcome w) rq' = (if rq' = rq then outcome else http w rq')"
  by (simp add: with_outcome_def)

lemma calls_Called_comp: "calls (map (Called \<circ> f) xs) = map f xs"
  by (induction xs) simp_all

lemma room_loop_http:
  "http w' = http w \<Longrightarrow> room_loop w' rs bs = room_loop w rs bs"
proof -
  assume h: "http w' = http w"
  have "room_ok w' = room_ok w" and "room_entries w' = room_entries w"
    by (rule ext, simp add: room_ok_def room_entries_def h)+
  then show ?thesis
    by (cases bs) (simp add: room_loop_eq)
qed

lemma run_steps_http:
  "http w' = http w \<Longrightarrow> run_steps w' pid mh s = run_steps w pid mh s"
  by (simp add: run_steps_def reset_rooms_def reset_interactions_def clear_inventory_def
        reset_player_def room_loop_http [of w' w])

lemma requests_full_plan:
  "map fst (full_plan pid mh) =
     [player_update_request pid mh, inventory_delete_request pid,
      interaction_reset_request pid]
     @ map (\<lambda>room. room_update_request (fst room) (snd room)) room_defaults"
  by (simp add: full_plan_def comp_def)

lemma calls_full_game_reset:
  assumes "player_resolved w pid name mh"
  shows "calls (snd (full_game_reset w pid)) =
           player_lookup_request pid # map fst (full_plan pid mh)"
  by (simp add: full_game_reset_resolved [OF assms] calls_append calls_Called_comp
        calls_publish_activity)

lemma status_report:
  "status (report pid name r) = (if player r \<and> inventory r \<and> rooms r then 200 else 207)"
  by (simp add: report_def)

lemma urls_full_plan:
  "map url (map fst (full_plan pid mh)) =
     [Player_url pid, Inventory_player_url pid, Interaction_reset_url pid,
      Room_url 1, Room_url 2, Room_url 3]"
  by (simp add: full_plan_def room_defaults_def player_update_request_def
        inventory_delete_request_def interaction_reset_request_def room_update_request_def)

lemma player_resolved_with_outcome:
  "rq \<noteq> player_lookup_request pid \<Longrightarrow>
     player_resolved (with_outcome rq outcome w) pid name mh = player_resolved w pid name mh"
  by (simp add: player_resolved_def http_with_outcome)

lemma length_entries:
  "length (player_entries w pid mh) =
     (if succeeded [200] (http w (player_update_request pid mh)) then 0 else 1)"
  "length (inventory_entries w pid) =
     (if succeeded [200, 404] (http w (inventory_delete_request pid)) then 0 else 1)"
  "length (interaction_entries w pid) =
     (if succeeded [200] (http w (interaction_reset_request pid)) then 0 else 1)"
  "length (room_entries w room) = (if room_ok w room then 0 else 1)"
  by (simp_all add: player_entries_def inventory_entries_def interaction_entries_def
        room_entries_def room_ok_def succeeded_def split: sum.splits)

lemma full_game_reset_returns: "\<exists>rsp. fst (full_game_reset w pid) = Inr rsp"
proof (cases "\<exists>name mh. player_resolved w pid name mh")
  case True
  then obtain name mh where h: "player_resolved w pid name mh" by blast
  show ?thesis by (simp add: full_game_reset_resolved [OF h])
next
  case False
  then have "\<forall>name mh. \<not> player_resolved w pid name mh" by blast
  from full_game_reset_unresolved(2) [OF this] show ?thesis by blast
qed

lemma failed_steps_count:
  "length (errors (final_results w pid mh)) =
     length (filter (step_failed w) (full_plan pid mh))"
  by (simp add: final_results_eq length_entries full_plan_def step_failed_def
        room_defaults_def room_ok_def)

lemma room_with_outcome:
  assumes "\<And>i. url rq \<noteq> Room_url i"
  shows "room_ok (with_outcome rq outcome w) = room_ok w"
    and "room_entries (with_outcome rq outcome w) = room_entries w"
proof -
  have "room_update_request (fst room) (snd room) \<noteq> rq" for room
  proof
    assume "room_update_request (fst room) (snd room) = rq"
    then have "url rq = Room_url (fst room)"
      by (auto simp: room_update_request_def)
    with assms show False by blast
  qed
  then show "room_ok (with_outcome rq outcome w) = room_ok w"
    and "room_entries (with_outcome rq outcome w) = room_entries w"
    by (auto simp: room_ok_def room_entries_def http_with_outcome fun_eq_iff)
qed

lemma full_game_reset_fst_cong:
  assumes "http w' (player_lookup_request pid) = http w (player_lookup_request pid)"
    and "\<And>mh. final_results w' pid mh = final_results w pid mh"
  shows "fst (full_game_reset w' pid) = fst (full_game_reset w pid)"
  using assms(2)
  by (simp add: full_game_reset_def full_game_reset_try_def Let_def send_activity_log_eq
        assms(1) final_results_def split: sum.splits)

lemma full_game_reset_status_cong:
  assumes "http w' (player_lookup_request pid) = http w (player_lookup_request pid)"
    and "\<And>mh. player (final_results w' pid mh) = player (final_results w pid mh)"
    and "\<And>mh. inventory (final_results w' pid mh) = inventory (final_results w pid mh)"
    and "\<And>mh. rooms (final_results w' pid mh) = rooms (final_results w pid mh)"
  shows "map_sum id status (fst (full_game_reset w' pid))
           = map_sum id status (fst (full_game_reset w pid))"
  using assms(2-4)
  by (simp add: full_game_reset_def full_game_reset_try_def Let_def send_activity_log_eq
        assms(1) final_results_def status_report split: sum.splits)

lemma filter_step_entries:
  "filter (room_prefix i) (player_entries w pid mh) = []"
  "filter (room_prefix i) (inventory_entries w pid) = []"
  "filter (room_prefix i) (interaction_entries w pid) = []"
  by (simp_all add: room_prefix_def player_entries_def inventory_entries_def
        interaction_entries_def split: sum.splits)

lemma filter_room_entries:
  "filter (room_prefix i) (room_entries w room) =
     (if fst room = i then room_entries w room else [])"
  by (simp add: room_prefix_def room_entries_def split: sum.splits)

lemma room_entries_empty: "(room_entries w room = []) = room_ok w room"
  by (simp add: room_entries_def room_ok_def succeeded_def split: sum.splits)

lemma room_in_plan:
  "room \<in> set room_defaults \<Longrightarrow>
     room_update_request (fst room) (snd room) \<in> set (map fst (full_plan pid mh))"
  by (auto simp: requests_full_plan)

lemma text_entries_map: "text_entries (map F_text es) = es"
  by (induction es) simp_all

lemma reported_of_report:
  "reported_errors (report pid name r) = errors r"
  "reported_flag ''player'' (report pid name r) = Some (player r)"
  "reported_flag ''inventory'' (report pid name r) = Some (inventory r)"
  "reported_flag ''rooms'' (report pid name r) = Some (rooms r)"
  "reported_keys (report pid name r) = [''player'', ''inventory'', ''rooms'', ''errors'']"
  by (simp_all add: reported_errors_def reported_flag_def reported_keys_def report_def
        jsonify_results_def text_entries_map)

subsection \<open>The concrete worlds\<close>

lemma all_ok_resolved: "player_resolved all_ok 42 [Str_json (JStr ''Hero'')] (JInt 100)"
  by (simp add: player_resolved_def all_ok_def found_def hero_def get_player_name_def
        get_max_health_def)

lemma steps_down_resolved:
  "player_resolved steps_down 42 [Str_json (JStr ''Hero'')] (JInt 100)"
  by (simp add: player_resolved_def steps_down_def found_def hero_def get_player_name_def
        get_max_health_def)

lemma final_results_steps_down:
  "final_results steps_down 42 (JInt 100) =
     \<lparr>player = False, inventory = False, rooms = False,
      errors =
        [[Text ''Player reset error: '', Str_exn (Raised ''timed out'')],
         [Text ''Inventory reset error: '', Str_exn (Raised ''timed out'')],
         [Text ''Player interaction reset error: '', Str_exn (Raised ''timed out'')],
         [Text ''Room '', Str_nat 1, Text '' reset error: '', Str_exn (Raised ''timed out'')],
         [Text ''Room '', Str_nat 2, Text '' reset error: '', Str_exn (Raised ''timed out'')],
         [Text ''Room '', Str_nat 3, Text '' reset error: '', Str_exn (Raised ''timed out'')]]\<rparr>"
  by (simp add: final_results_eq steps_down_def succeeded_def room_ok_def room_defaults_def
        player_entries_def inventory_entries_def interaction_entries_def room_entries_def
        player_lookup_request_def player_update_request_def inventory_delete_request_def
        interaction_reset_request_def room_update_request_def)

lemma room2_down_resolved:
  "player_resolved room2_down 42 [Str_json (JStr ''Hero'')] (JInt 100)"
  by (simp add: room2_down_def player_resolved_with_outcome all_ok_resolved
        room_update_request_def player_lookup_request_def)

lemma final_results_room2_down:
  "final_results room2_down 42 (JInt 100) =
     \<lparr>player = True, inventory = True, rooms = False,
      errors = [[Text ''Room '', Str_nat 2, Text '' reset failed: '', Text ''room locked'']]\<rparr>"
  by (simp add: final_results_eq room2_down_def http_with_outcome all_ok_def succeeded_def
        room_ok_def room_defaults_def answer_def room2_data_def
        player_entries_def inventory_entries_def interaction_entries_def room_entries_def
        player_lookup_request_def player_update_request_def inventory_delete_request_def
        interaction_reset_request_def room_update_request_def)

lemma interaction_down_resolved:
  "player_resolved interaction_down 42 [Str_json (JStr ''Hero'')] (JInt 100)"
  by (simp add: interaction_down_def player_resolved_with_outcome all_ok_resolved
        interaction_reset_request_def player_lookup_request_def)

lemma final_results_interaction_down:
  "final_results interaction_down 42 (JInt 100) =
     \<lparr>player = True, inventory = True, rooms = True,
      errors = [[Text ''Player interaction reset failed: '', Text ''down'']]\<rparr>"
  by (simp add: final_results_eq interaction_down_def http_with_outcome all_ok_def
        succeeded_def room_ok_def room_defaults_def answer_def
        player_entries_def inventory_entries_def interaction_entries_def room_entries_def
        player_lookup_request_def player_update_request_def inventory_delete_request_def
        interaction_reset_request_def room_update_request_def)

section \<open>The claims\<close>

subsection \<open>C1: when a full reset reports full success\<close>

text \<open>
  Claim C1, as stated: a full reset that reaches its report answers with the 200 success
  message exactly when \<^verbatim>\<open>player\<close>, \<^verbatim>\<open>inventory\<close> and \<^verbatim>\<open>rooms\<close> are all true and
  \<^verbatim>\<open>errors\<close> is empty, and with 207 when one entry is true and one is false or an error is
  listed. It fails where only the interaction-history service answers 500: the three
  entries are true, \<^verbatim>\<open>errors\<close> holds one entry, and the answer is the 200 success message.
\<close>

theorem full_success_with_errors_counterexample:
  "fst (full_game_reset interaction_down 42) =
     Inr \<lparr>status = 200,
          body = [(''message'', F_text [Text ''Game fully reset for '', Str_json (JStr ''Hero'')]),
                  (''player_id'', F_nat 42),
                  (''reset_details'',
                   F_dict [(''player'', F_bool True), (''inventory'', F_bool True),
                           (''rooms'', F_bool True),
                           (''errors'',
                            F_list [F_text [Text ''Player interaction reset failed: '',
                                            Text ''down'']])])]\<rparr>
   \<and> \<not> spec_full_success (final_results interaction_down 42 (JInt 100))
   \<and> spec_partial_success (final_results interaction_down 42 (JInt 100))"
  by (simp add: full_game_reset_resolved [OF interaction_down_resolved]
        final_results_interaction_down report_def jsonify_results_def spec_full_success_def
        spec_partial_success_def)

text \<open>
  Claim C1, amended. A full reset that reaches its report answers with the 200 success
  message exactly when \<^verbatim>\<open>player\<close>, \<^verbatim>\<open>inventory\<close> and \<^verbatim>\<open>rooms\<close> are all true, and with
  the 207 partial message exactly when one of them is false (also when none is true);
  \<^verbatim>\<open>errors\<close> is reported in \<^verbatim>\<open>reset_details\<close> and plays no part in the choice.
\<close>

theorem full_success_iff_three_flags:
  assumes "player_resolved w pid name mh"
  shows "fst (full_game_reset w pid) = Inr (report pid name (final_results w pid mh))
         \<and> (report pid name (final_results w pid mh) =
              \<lparr>status = 200,
               body = [(''message'', F_text ([Text ''Game fully reset for ''] @ name)),
                       (''player_id'', F_nat pid),
                       (''reset_details'', F_dict (jsonify_results (final_results w pid mh)))]\<rparr>)
            = (player (final_results w pid mh) \<and> inventory (final_results w pid mh)
               \<and> rooms (final_results w pid mh))
         \<and> (report pid name (final_results w pid mh) =
              \<lparr>status = 207,
               body = [(''message'', F_text ([Text ''Game partially reset for ''] @ name
                                              @ [Text '' - some errors occurred''])),
                       (''player_id'', F_nat pid),
                       (''reset_details'', F_dict (jsonify_results (final_results w pid mh)))]\<rparr>)
            = (\<not> (player (final_results w pid mh) \<and> inventory (final_results w pid mh)
                  \<and> rooms (final_results w pid mh)))"
proof -
  have "fst (full_game_reset w pid) = Inr (report pid name (final_results w pid mh))"
    by (simp add: full_game_reset_resolved [OF assms])
  then show ?thesis
    by (simp add: report_def)
qed

theorem full_success_iff_three_flags_witness:
  "player_resolved room2_down 42 [Str_json (JStr ''Hero'')] (JInt 100)
   \<and> fst (full_game_reset room2_down 42) =
       Inr \<lparr>status = 207,
            body = [(''message'',
                     F_text [Text ''Game partially reset for '', Str_json (JStr ''Hero''),
                             Text '' - some errors occurred'']),
                    (''player_id'', F_nat 42),
                    (''reset_details'',
                     F_dict [(''player'', F_bool True), (''inventory'', F_bool True),
                             (''rooms'', F_bool False),
                             (''errors'',
                              F_list [F_text [Text ''Room '', Str_nat 2,
                                              Text '' reset failed: '',
                                              Text ''room locked'']])])]\<rparr>
   \<and> \<not> rooms (final_results room2_down 42 (JInt 100))"
  using room2_down_resolved full_success_iff_three_flags [OF room2_down_resolved]
  by (simp add: final_results_room2_down report_def jsonify_results_def)

subsection \<open>C2: an unknown player ends the request at once\<close>

text \<open>
  Claim C2, as stated: in both handlers, whenever the player lookup does not return status
  200, the result is the 404 not-found response at once, with no other call and no
  activity published. It fails when the lookup returns nothing at all: with the player
  service out of reach, \<^verbatim>\<open>reset_character_progress\<close> raises and \<^verbatim>\<open>full_game_reset\<close>
  answers 500.
\<close>

theorem lookup_failure_is_no_404_counterexample:
  "http lookup_down (player_lookup_request 42) = Inl (Raised ''connection refused'')
   \<and> reset_character_progress lookup_down 42 =
       (Inl (Raised ''connection refused''), [Called (player_lookup_request 42)])
   \<and> full_game_reset lookup_down 42 =
       (Inr \<lparr>status = 500,
             body = [(''error'', F_text [Text ''Failed to reset game: '',
                                         Str_exn (Raised ''connection refused'')]),
                     (''reset_details'',
                      F_dict [(''player'', F_bool False), (''inventory'', F_bool False),
                              (''rooms'', F_bool False), (''errors'', F_list [])])]\<rparr>,
        [Called (player_lookup_request 42)])"
  by (simp add: lookup_down_def http_with_outcome reset_character_progress_def
        full_game_reset_def full_game_reset_try_def initial_state_def initial_results_def
        jsonify_results_def)

text \<open>
  Claim C2, amended. In both handlers, when the player lookup returns a response whose
  status is not 200, the result is the 404 response \<^verbatim>\<open>{"error": "Player not found"}\<close> and
  the lookup is the only effect: no other service is called, nothing is changed, no
  activity is published. When the lookup raises, the lookup is the only effect as well,
  but the result is no 404: the partial reset raises the same exception, and the full
  reset answers 500 with \<^verbatim>\<open>reset_details\<close> as initialised.
\<close>

theorem player_not_found_short_circuits:
  "(http w (player_lookup_request pid) = Inr player_response
      \<and> status_code player_response \<noteq> 200 \<longrightarrow>
      reset_character_progress w pid =
        (Inr \<lparr>status = 404, body = [(''error'', F_text [Text ''Player not found''])]\<rparr>,
         [Called (player_lookup_request pid)])
      \<and> full_game_reset w pid =
        (Inr \<lparr>status = 404, body = [(''error'', F_text [Text ''Player not found''])]\<rparr>,
         [Called (player_lookup_request pid)]))
   \<and> (http w (player_lookup_request pid) = Inl e \<longrightarrow>
      reset_character_progress w pid = (Inl e, [Called (player_lookup_request pid)])
      \<and> full_game_reset w pid =
        (Inr \<lparr>status = 500,
              body = [(''error'', F_text [Text ''Failed to reset game: '', Str_exn e]),
                      (''reset_details'', F_dict (jsonify_results initial_results))]\<rparr>,
         [Called (player_lookup_request pid)]))"
  by (simp add: reset_character_progress_def full_game_reset_def full_game_reset_try_def
        initial_state_def Let_def)

theorem player_not_found_short_circuits_witness:
  "http player_missing (player_lookup_request 999) = Inr (answer 404 ''no such player'')
   \<and> status_code (answer 404 ''no such player'') \<noteq> 200
   \<and> reset_character_progress player_missing 999 =
       (Inr \<lparr>status = 404, body = [(''error'', F_text [Text ''Player not found''])]\<rparr>,
        [Called (player_lookup_request 999)])
   \<and> full_game_reset player_missing 999 =
       (Inr \<lparr>status = 404, body = [(''error'', F_text [Text ''Player not found''])]\<rparr>,
        [Called (player_lookup_request 999)])
   \<and> http lookup_down (player_lookup_request 42) = Inl (Raised ''connection refused'')
   \<and> snd (reset_character_progress lookup_down 42) = [Called (player_lookup_request 42)]
   \<and> snd (full_game_reset lookup_down 42) = [Called (player_lookup_request 42)]"
proof -
  have h1: "http player_missing (player_lookup_request 999) = Inr (answer 404 ''no such player'')"
    by (simp add: player_missing_def http_with_outcome)
  have h2: "status_code (answer 404 ''no such player'') \<noteq> 200"
    by (simp add: answer_def)
  have h3: "http lookup_down (player_lookup_request 42) = Inl (Raised ''connection refused'')"
    by (simp add: lookup_down_def http_with_outcome)
  show ?thesis
    using h1 h2 h3
      player_not_found_short_circuits
        [of player_missing 999 "answer 404 ''no such player''" "Raised ''connection refused''"]
      player_not_found_short_circuits
        [of lookup_down 42 "answer 404 ''no such player''" "Raised ''connection refused''"]
    by simp
qed

subsection \<open>C3: a failing step does not stop the plan\<close>

text \<open>
  Claim C3. In a full reset that has found its player, whatever the player update, the
  inventory delete, the interaction-history reset and the room updates come back with
  (nothing is assumed of them), the handler makes all of these calls, in this fixed
  order, and ends with the report of lines 189--208, status 200 or 207.
\<close>

theorem full_plan_runs_to_the_end:
  assumes "player_resolved w pid name mh"
  shows "calls (snd (full_game_reset w pid)) =
           [player_lookup_request pid, player_update_request pid mh,
            inventory_delete_request pid, interaction_reset_request pid]
           @ map (\<lambda>room. room_update_request (fst room) (snd room)) room_defaults
         \<and> fst (full_game_reset w pid) = Inr (report pid name (final_results w pid mh))
         \<and> status (report pid name (final_results w pid mh)) \<in> {200, 207}"
proof -
  have "calls (snd (full_game_reset w pid)) =
          [player_lookup_request pid, player_update_request pid mh,
           inventory_delete_request pid, interaction_reset_request pid]
          @ map (\<lambda>room. room_update_request (fst room) (snd room)) room_defaults"
    by (simp add: calls_full_game_reset [OF assms] requests_full_plan)
  moreover have "fst (full_game_reset w pid) = Inr (report pid name (final_results w pid mh))"
    by (simp add: full_game_reset_resolved [OF assms])
  moreover have "status (report pid name (final_results w pid mh)) \<in> {200, 207}"
    by (simp add: status_report)
  ultimately show ?thesis by blast
qed

theorem full_plan_runs_to_the_end_witness:
  "player_resolved steps_down 42 [Str_json (JStr ''Hero'')] (JInt 100)
   \<and> calls (snd (full_game_reset steps_down 42)) =
       [player_lookup_request 42, player_update_request 42 (JInt 100),
        inventory_delete_request 42, interaction_reset_request 42]
       @ map (\<lambda>room. room_update_request (fst room) (snd room)) room_defaults
   \<and> fst (full_game_reset steps_down 42) =
       Inr (report 42 [Str_json (JStr ''Hero'')] (final_results steps_down 42 (JInt 100)))
   \<and> status (report 42 [Str_json (JStr ''Hero'')] (final_results steps_down 42 (JInt 100)))
       = 207
   \<and> length (errors (final_results steps_down 42 (JInt 100))) = 6"
  using steps_down_resolved full_plan_runs_to_the_end [OF steps_down_resolved]
  by (simp add: final_results_steps_down status_report)

subsection \<open>C4: the full reset and the enemy service\<close>

text \<open>
  Claim C4, as stated: every full reset that passes the player check sends a reset request
  to the enemy service. It fails where every service answers 200: the seven calls of the
  handler go to the player, inventory, interaction and room services only.
\<close>

theorem full_reset_enemy_step_counterexample:
  "player_resolved all_ok 42 [Str_json (JStr ''Hero'')] (JInt 100)
   \<and> map url (calls (snd (full_game_reset all_ok 42))) =
       [Player_url 42, Player_url 42, Inventory_player_url 42, Interaction_reset_url 42,
        Room_url 1, Room_url 2, Room_url 3]
   \<and> Enemy_reset_url \<notin> set (map url (calls (snd (full_game_reset all_ok 42))))"
proof -
  have "map url (calls (snd (full_game_reset all_ok 42))) =
       [Player_url 42, Player_url 42, Inventory_player_url 42, Interaction_reset_url 42,
        Room_url 1, Room_url 2, Room_url 3]"
    by (simp add: full_game_reset_resolved [OF all_ok_resolved] calls_append
          calls_Called_comp calls_publish_activity urls_full_plan [simplified]
          player_lookup_request_def)
  with all_ok_resolved show ?thesis by simp
qed

text \<open>
  Claim C4, amended. No full reset sends any request to the enemy service, whatever the
  services answer; one that passes the player check sends, after the lookup, the player
  update, the inventory delete, the interaction-history reset and the three room updates,
  and nothing else.
\<close>

theorem full_reset_never_calls_enemy_service:
  "Enemy_reset_url \<notin> set (map url (calls (snd (full_game_reset w pid))))
   \<and> (player_resolved w pid name mh \<longrightarrow>
        map (\<lambda>rq. (verb rq, url rq)) (calls (snd (full_game_reset w pid))) =
          [(GET, Player_url pid), (PUT, Player_url pid), (DELETE, Inventory_player_url pid),
           (POST, Interaction_reset_url pid),
           (PUT, Room_url 1), (PUT, Room_url 2), (PUT, Room_url 3)])"
proof -
  have "Enemy_reset_url \<notin> set (map url (calls (snd (full_game_reset w pid))))"
  proof (cases "\<exists>name mh. player_resolved w pid name mh")
    case True
    then obtain name' mh' where h: "player_resolved w pid name' mh'" by blast
    show ?thesis
      by (simp add: full_game_reset_resolved [OF h] calls_append calls_Called_comp
            calls_publish_activity urls_full_plan [simplified] player_lookup_request_def)
  next
    case False
    then have n: "\<forall>name mh. \<not> player_resolved w pid name mh" by blast
    show ?thesis
      by (simp add: full_game_reset_unresolved(1) [OF n] player_lookup_request_def)
  qed
  moreover have "map (\<lambda>rq. (verb rq, url rq)) (calls (snd (full_game_reset w pid))) =
          [(GET, Player_url pid), (PUT, Player_url pid), (DELETE, Inventory_player_url pid),
           (POST, Interaction_reset_url pid),
           (PUT, Room_url 1), (PUT, Room_url 2), (PUT, Room_url 3)]"
    if h: "player_resolved w pid name mh"
    by (simp add: full_game_reset_resolved [OF h] calls_append calls_Called_comp
          calls_publish_activity full_plan_def room_defaults_def player_lookup_request_def
          player_update_request_def inventory_delete_request_def
          interaction_reset_request_def room_update_request_def)
  ultimately show ?thesis by blast
qed

theorem full_reset_never_calls_enemy_service_witness:
  "player_resolved steps_down 42 [Str_json (JStr ''Hero'')] (JInt 100)
   \<and> Enemy_reset_url \<notin> set (map url (calls (snd (full_game_reset steps_down 42))))
   \<and> map (\<lambda>rq. (verb rq, url rq)) (calls (snd (full_game_reset steps_down 42))) =
       [(GET, Player_url 42), (PUT, Player_url 42), (DELETE, Inventory_player_url 42),
        (POST, Interaction_reset_url 42),
        (PUT, Room_url 1), (PUT, Room_url 2), (PUT, Room_url 3)]"
  using steps_down_resolved
    full_reset_never_calls_enemy_service
      [of steps_down 42 "[Str_json (JStr ''Hero'')]" "JInt 100"]
  by blast

subsection \<open>C5: failures of the calls as data\<close>

text \<open>
  Claim C5, as stated: in both plans a transport error, a timeout or an unexpected status
  of a call is caught and recorded, and never leaves the handler as an exception. It fails
  in the partial plan: when the enemy service refuses the connection, the exception leaves
  \<^verbatim>\<open>reset_character_progress\<close>.
\<close>

theorem partial_reset_enemy_failure_counterexample:
  "reset_character_progress enemy_down 42 =
     (Inl (Raised ''connection refused''),
      [Called (player_lookup_request 42), Called (progress_update_request 42 (JInt 100)),
       Called enemy_reset_request])"
  by (simp add: reset_character_progress_def enemy_down_def http_with_outcome
        all_ok_def found_def hero_def get_max_health_def player_lookup_request_def
        progress_update_request_def enemy_reset_request_def)

text \<open>
  Claim C5, amended. In the full plan no call makes the handler raise: \<^verbatim>\<open>full_game_reset\<close>
  always returns a response. Past the player check, every step that fails (transport
  error, timeout, or a status its step does not accept) is one entry of \<^verbatim>\<open>errors\<close>, so
  that \<^verbatim>\<open>errors\<close> has as many entries as steps failed, and \<^verbatim>\<open>player\<close>, \<^verbatim>\<open>inventory\<close> and
  \<^verbatim>\<open>rooms\<close> say whether their calls succeeded.
\<close>

theorem full_reset_records_every_failure:
  "(\<exists>rsp. fst (full_game_reset w pid) = Inr rsp)
   \<and> (player_resolved w pid name mh \<longrightarrow>
        fst (full_game_reset w pid) = Inr (report pid name (final_results w pid mh))
        \<and> length (errors (final_results w pid mh)) =
            length (filter (step_failed w) (full_plan pid mh))
        \<and> player (final_results w pid mh) =
            succeeded [200] (http w (player_update_request pid mh))
        \<and> inventory (final_results w pid mh) =
            succeeded [200, 404] (http w (inventory_delete_request pid))
        \<and> rooms (final_results w pid mh) = list_all (room_ok w) room_defaults)"
proof -
  have "fst (full_game_reset w pid) = Inr (report pid name (final_results w pid mh))"
    if h: "player_resolved w pid name mh"
    by (simp add: full_game_reset_resolved [OF h])
  moreover have "player (final_results w pid mh) =
            succeeded [200] (http w (player_update_request pid mh))
        \<and> inventory (final_results w pid mh) =
            succeeded [200, 404] (http w (inventory_delete_request pid))
        \<and> rooms (final_results w pid mh) = list_all (room_ok w) room_defaults"
    by (simp add: final_results_eq)
  ultimately show ?thesis
    using full_game_reset_returns [of w pid] failed_steps_count [of w pid mh] by blast
qed

theorem full_reset_records_every_failure_witness:
  "player_resolved steps_down 42 [Str_json (JStr ''Hero'')] (JInt 100)
   \<and> (\<exists>rsp. fst (full_game_reset steps_down 42) = Inr rsp)
   \<and> fst (full_game_reset steps_down 42) =
       Inr (report 42 [Str_json (JStr ''Hero'')] (final_results steps_down 42 (JInt 100)))
   \<and> length (filter (step_failed steps_down) (full_plan 42 (JInt 100))) = 6
   \<and> length (errors (final_results steps_down 42 (JInt 100))) = 6
   \<and> \<not> player (final_results steps_down 42 (JInt 100))
   \<and> \<not> inventory (final_results steps_down 42 (JInt 100))
   \<and> \<not> rooms (final_results steps_down 42 (JInt 100))"
  using steps_down_resolved
    full_reset_records_every_failure
      [of steps_down 42 "[Str_json (JStr ''Hero'')]" "JInt 100"]
  by (simp add: final_results_steps_down)

subsection \<open>C6: an inventory that is not there\<close>

text \<open>
  Claim C6. When the inventory delete comes back with status 404, the step sets
  \<^verbatim>\<open>inventory\<close> to true and leaves \<^verbatim>\<open>errors\<close> as it was, so that the final
  \<^verbatim>\<open>errors\<close> holds entries of the other steps only; and the step and the whole response
  are those of the world in which the same answer carries status 200.
\<close>

theorem inventory_not_found_counts_as_success:
  assumes "http w (inventory_delete_request pid) = Inr rsp"
    and "status_code rsp = 404"
  shows "results (clear_inventory w pid s) = (results s)\<lparr>inventory := True\<rparr>
         \<and> inventory (final_results w pid mh)
         \<and> errors (final_results w pid mh) =
             player_entries w pid mh @ interaction_entries w pid
               @ concat (map (room_entries w) room_defaults)
         \<and> clear_inventory
              (with_outcome (inventory_delete_request pid) (Inr (rsp\<lparr>status_code := 200\<rparr>)) w)
              pid s
             = clear_inventory w pid s
         \<and> fst (full_game_reset
                  (with_outcome (inventory_delete_request pid)
                     (Inr (rsp\<lparr>status_code := 200\<rparr>)) w) pid)
             = fst (full_game_reset w pid)"
proof -
  let ?w = "with_outcome (inventory_delete_request pid) (Inr (rsp\<lparr>status_code := 200\<rparr>)) w"
  have step: "results (clear_inventory w pid s) = (results s)\<lparr>inventory := True\<rparr>"
    using assms
    by (simp add: clear_inventory_results succeeded_def inventory_entries_def)
  have final: "inventory (final_results w pid mh)"
    "errors (final_results w pid mh) =
       player_entries w pid mh @ interaction_entries w pid
         @ concat (map (room_entries w) room_defaults)"
    using assms by (simp_all add: final_results_eq succeeded_def inventory_entries_def)
  have same_step: "clear_inventory ?w pid s = clear_inventory w pid s"
    using assms by (simp add: clear_inventory_def http_with_outcome)
  have "final_results ?w pid mh' = final_results w pid mh'" for mh'
    using assms
    by (simp add: final_results_eq room_with_outcome inventory_delete_request_def
          succeeded_def player_entries_def inventory_entries_def interaction_entries_def
          http_with_outcome player_update_request_def interaction_reset_request_def)
  then have same: "fst (full_game_reset ?w pid) = fst (full_game_reset w pid)"
    by (intro full_game_reset_fst_cong)
       (simp_all add: http_with_outcome inventory_delete_request_def
          player_lookup_request_def)
  show ?thesis
    using step final same_step same by blast
qed

theorem inventory_not_found_counts_as_success_witness:
  "http inventory_absent (inventory_delete_request 42) = Inr (answer 404 ''no inventory'')
   \<and> status_code (answer 404 ''no inventory'') = 404
   \<and> results (clear_inventory inventory_absent 42 (initial_state 42))
       = initial_results\<lparr>inventory := True\<rparr>
   \<and> inventory (final_results inventory_absent 42 (JInt 100))
   \<and> errors (final_results inventory_absent 42 (JInt 100)) = []
   \<and> fst (full_game_reset
            (with_outcome (inventory_delete_request 42)
               (Inr ((answer 404 ''no inventory'')\<lparr>status_code := 200\<rparr>)) inventory_absent) 42)
       = fst (full_game_reset inventory_absent 42)"
proof -
  have h1: "http inventory_absent (inventory_delete_request 42)
              = Inr (answer 404 ''no inventory'')"
    by (simp add: inventory_absent_def http_with_outcome)
  have h2: "status_code (answer 404 ''no inventory'') = 404"
    by (simp add: answer_def)
  have others:
    "player_entries inventory_absent 42 (JInt 100) = []"
    "interaction_entries inventory_absent 42 = []"
    "concat (map (room_entries inventory_absent) room_defaults) = []"
    by (simp_all add: inventory_absent_def http_with_outcome all_ok_def answer_def
          player_entries_def interaction_entries_def room_entries_def room_defaults_def
          player_lookup_request_def player_update_request_def inventory_delete_request_def
          interaction_reset_request_def room_update_request_def)
  show ?thesis
    using h1 h2
      inventory_not_found_counts_as_success
        [OF h1 h2, where s = "initial_state 42" and mh = "JInt 100"]
    by (simp add: others initial_state_def)
qed

subsection \<open>C7: the rooms are reset one by one\<close>

text \<open>
  Claim C7, as stated: a failing room update does not keep the other rooms from being
  tried, and each of the three rooms appears with its own outcome in the final report. The
  second half fails: when only room 2 fails, room 1 is updated with success, and the
  report holds one \<^verbatim>\<open>rooms\<close> flag and one entry about room 2; nothing in it is about
  room 1.
\<close>

theorem successful_room_leaves_no_entry_counterexample:
  "map_sum id reported_keys (fst (full_game_reset room2_down 42))
     = Inr [''player'', ''inventory'', ''rooms'', ''errors'']
   \<and> map_sum id (\<lambda>rsp. filter (room_prefix 1) (reported_errors rsp))
        (fst (full_game_reset room2_down 42)) = Inr []
   \<and> player_resolved room2_down 42 [Str_json (JStr ''Hero'')] (JInt 100)
   \<and> (1, room1_data) \<in> set room_defaults
   \<and> room_update_request 1 room1_data \<in> set (calls (snd (full_game_reset room2_down 42)))
   \<and> room_ok room2_down (1, room1_data)
   \<and> fst (full_game_reset room2_down 42) =
       Inr \<lparr>status = 207,
            body = [(''message'',
                     F_text [Text ''Game partially reset for '', Str_json (JStr ''Hero''),
                             Text '' - some errors occurred'']),
                    (''player_id'', F_nat 42),
                    (''reset_details'',
                     F_dict [(''player'', F_bool True), (''inventory'', F_bool True),
                             (''rooms'', F_bool False),
                             (''errors'',
                              F_list [F_text [Text ''Room '', Str_nat 2,
                                              Text '' reset failed: '',
                                              Text ''room locked'']])])]\<rparr>"
proof -
  have "(1, room1_data) \<in> set room_defaults"
    by (simp add: room_defaults_def room1_data_def)
  moreover have "room_update_request 1 room1_data
                   \<in> set (calls (snd (full_game_reset room2_down 42)))"
    by (simp add: calls_full_game_reset [OF room2_down_resolved] requests_full_plan
          room_defaults_def room1_data_def)
  moreover have "room_ok room2_down (1, room1_data)"
    by (simp add: room_ok_def succeeded_def room2_down_def http_with_outcome all_ok_def
          answer_def room_update_request_def player_lookup_request_def)
  moreover have "fst (full_game_reset room2_down 42) =
       Inr \<lparr>status = 207,
            body = [(''message'',
                     F_text [Text ''Game partially reset for '', Str_json (JStr ''Hero''),
                             Text '' - some errors occurred'']),
                    (''player_id'', F_nat 42),
                    (''reset_details'',
                     F_dict [(''player'', F_bool True), (''inventory'', F_bool True),
                             (''rooms'', F_bool False),
                             (''errors'',
                              F_list [F_text [Text ''Room '', Str_nat 2,
                                              Text '' reset failed: '',
                                              Text ''room locked'']])])]\<rparr>"
    by (simp add: full_game_reset_resolved [OF room2_down_resolved]
          final_results_room2_down report_def jsonify_results_def)
  moreover have "map_sum id reported_keys (fst (full_game_reset room2_down 42))
                   = Inr [''player'', ''inventory'', ''rooms'', ''errors'']"
    by (simp add: full_game_reset_resolved [OF room2_down_resolved] reported_of_report)
  moreover have "map_sum id (\<lambda>rsp. filter (room_prefix 1) (reported_errors rsp))
                   (fst (full_game_reset room2_down 42)) = Inr []"
    by (simp add: full_game_reset_resolved [OF room2_down_resolved] reported_of_report
          final_results_room2_down room_prefix_def)
  ultimately show ?thesis
    using room2_down_resolved by blast
qed

text \<open>
  Claim C7, amended. In a full reset that has found its player, each of the three
  configured rooms is sent its update, whatever the other rooms' updates come back with.
  The response reports the rooms by one \<^verbatim>\<open>rooms\<close> flag, true when all three updates
  succeeded, and by \<^verbatim>\<open>errors\<close>: the entries about a room are exactly those of its own
  update, one when it failed and none when it succeeded.
\<close>

theorem every_room_is_tried_and_failures_reported:
  assumes "player_resolved w pid name mh"
    and "room \<in> set room_defaults"
  shows "room_update_request (fst room) (snd room) \<in> set (calls (snd (full_game_reset w pid)))
         \<and> (\<exists>rsp. fst (full_game_reset w pid) = Inr rsp
               \<and> reported_keys rsp = [''player'', ''inventory'', ''rooms'', ''errors'']
               \<and> reported_flag ''rooms'' rsp = Some (list_all (room_ok w) room_defaults)
               \<and> filter (room_prefix (fst room)) (reported_errors rsp) = room_entries w room)
         \<and> (room_entries w room = []) = room_ok w room"
proof -
  have tried: "room_update_request (fst room) (snd room)
                 \<in> set (calls (snd (full_game_reset w pid)))"
    using room_in_plan [OF assms(2), of pid mh]
    by (simp add: calls_full_game_reset [OF assms(1)])
  have reported: "fst (full_game_reset w pid) = Inr (report pid name (final_results w pid mh))"
    by (simp add: full_game_reset_resolved [OF assms(1)])
  have own: "filter (room_prefix (fst room)) (errors (final_results w pid mh))
               = room_entries w room"
    using assms(2)
    by (auto simp: final_results_eq filter_step_entries filter_room_entries room_defaults_def)
  have flag: "rooms (final_results w pid mh) = list_all (room_ok w) room_defaults"
    by (simp add: final_results_eq)
  show ?thesis
    using tried reported own flag room_entries_empty [of w room]
    by (simp add: reported_of_report)
qed

theorem every_room_is_tried_and_failures_reported_witness:
  "player_resolved room2_down 42 [Str_json (JStr ''Hero'')] (JInt 100)
   \<and> (2, room2_data) \<in> set room_defaults
   \<and> room_update_request 2 room2_data \<in> set (calls (snd (full_game_reset room2_down 42)))
   \<and> (\<exists>rsp. fst (full_game_reset room2_down 42) = Inr rsp
         \<and> reported_keys rsp = [''player'', ''inventory'', ''rooms'', ''errors'']
         \<and> reported_flag ''rooms'' rsp = Some False
         \<and> filter (room_prefix 2) (reported_errors rsp)
             = [[Text ''Room '', Str_nat 2, Text '' reset failed: '', Text ''room locked'']])
   \<and> \<not> room_ok room2_down (2, room2_data)"
proof -
  have h2: "(2, room2_data) \<in> set room_defaults"
    by (simp add: room_defaults_def room2_data_def)
  have e: "room_entries room2_down (2, room2_data) =
             [[Text ''Room '', Str_nat 2, Text '' reset failed: '', Text ''room locked'']]"
    by (simp add: room_entries_def room2_down_def http_with_outcome answer_def)
  have f: "list_all (room_ok room2_down) room_defaults = False"
    using final_results_room2_down by (simp add: final_results_eq)
  show ?thesis
    using room2_down_resolved h2
      every_room_is_tried_and_failures_reported [OF room2_down_resolved h2]
    by (auto simp: e f)
qed

subsection \<open>C8: the fate of the activity log does not show\<close>

text \<open>
  Claim C8. \<^verbatim>\<open>send_activity_log\<close> never raises, whichever of its broker calls fails; and
  with any other broker behaviour \<open>b\<close> in place of the world's, each handler returns the
  same result (status and body) and makes the same calls to the services.
\<close>

theorem audit_outcome_never_shows:
  "fst (send_activity_log w pid action) = Inr ()
   \<and> fst (reset_character_progress (w\<lparr>broker := b\<rparr>) pid) = fst (reset_character_progress w pid)
   \<and> calls (snd (reset_character_progress (w\<lparr>broker := b\<rparr>) pid))
       = calls (snd (reset_character_progress w pid))
   \<and> fst (full_game_reset (w\<lparr>broker := b\<rparr>) pid) = fst (full_game_reset w pid)
   \<and> calls (snd (full_game_reset (w\<lparr>broker := b\<rparr>) pid)) = calls (snd (full_game_reset w pid))"
proof -
  have run: "\<And>mh s. run_steps (w\<lparr>broker := b\<rparr>) pid mh s = run_steps w pid mh s"
    by (rule run_steps_http) simp
  have progress:
    "fst (reset_character_progress (w\<lparr>broker := b\<rparr>) pid) = fst (reset_character_progress w pid)
     \<and> calls (snd (reset_character_progress (w\<lparr>broker := b\<rparr>) pid))
         = calls (snd (reset_character_progress w pid))"
    by (simp add: reset_character_progress_def Let_def send_activity_log_eq calls_append
          calls_publish_activity split: sum.splits)
  have full:
    "fst (full_game_reset (w\<lparr>broker := b\<rparr>) pid) = fst (full_game_reset w pid)
     \<and> calls (snd (full_game_reset (w\<lparr>broker := b\<rparr>) pid))
         = calls (snd (full_game_reset w pid))"
    by (simp add: full_game_reset_def full_game_reset_try_def Let_def send_activity_log_eq
          calls_append calls_publish_activity run split: sum.splits)
  show ?thesis
    using progress full by (simp add: send_activity_log_eq)
qed

subsection \<open>C9: the partial reset looks at no status\<close>

text \<open>
  Claim C9, as stated: whenever the lookup of a partial reset returns status 200, the
  answer is the 200 success message, whatever becomes of the player update and the enemy
  reset. It fails when the player update times out: the lookup returned 200, and the
  exception leaves the handler.
\<close>

theorem partial_reset_update_failure_counterexample:
  "http progress_update_down (player_lookup_request 42) = Inr found
   \<and> status_code found = 200
   \<and> reset_character_progress progress_update_down 42 =
       (Inl (Raised ''timed out''),
        [Called (player_lookup_request 42), Called (progress_update_request 42 (JInt 100))])"
  by (simp add: reset_character_progress_def progress_update_down_def http_with_outcome
        all_ok_def found_def hero_def get_max_health_def player_lookup_request_def
        progress_update_request_def)

text \<open>
  Claim C9, amended. When the lookup of a partial reset returns status 200 with a JSON
  object, and the player update and the enemy reset each return a response, the answer is
  the 200 success message whatever the statuses of these two responses: they are never
  read.
\<close>

theorem partial_reset_ignores_statuses:
  assumes "http w (player_lookup_request pid) = Inr player_response"
    and "status_code player_response = 200"
    and "json_result player_response = Inr player_data"
    and "get_max_health player_data = Inr max_health"
    and "http w (progress_update_request pid max_health) = Inr update_response"
    and "http w enemy_reset_request = Inr enemy_response"
  shows "fst (reset_character_progress w pid) =
           Inr \<lparr>status = 200,
                body = [(''message'', F_text [Text ''Progress reset for player '', Str_nat pid,
                                              Text ''.''])]\<rparr>
         \<and> calls (snd (reset_character_progress w pid)) =
             [player_lookup_request pid, progress_update_request pid max_health,
              enemy_reset_request]"
  using assms
  by (simp add: reset_character_progress_def Let_def send_activity_log_eq calls_append
        calls_publish_activity)

theorem partial_reset_ignores_statuses_witness:
  "http mutations_rejected (player_lookup_request 42) = Inr found
   \<and> status_code found = 200
   \<and> json_result found = Inr hero
   \<and> get_max_health hero = Inr (JInt 100)
   \<and> http mutations_rejected (progress_update_request 42 (JInt 100)) = Inr (answer 500 ''no'')
   \<and> http mutations_rejected enemy_reset_request = Inr (answer 503 ''busy'')
   \<and> fst (reset_character_progress mutations_rejected 42) =
       Inr \<lparr>status = 200,
            body = [(''message'', F_text [Text ''Progress reset for player '', Str_nat 42,
                                          Text ''.''])]\<rparr>
   \<and> calls (snd (reset_character_progress mutations_rejected 42)) =
       [player_lookup_request 42, progress_update_request 42 (JInt 100), enemy_reset_request]"
proof -
  have h1: "http mutations_rejected (player_lookup_request 42) = Inr found"
    by (simp add: mutations_rejected_def http_with_outcome all_ok_def
          player_lookup_request_def progress_update_request_def enemy_reset_request_def)
  have h2: "status_code found = 200" and h3: "json_result found = Inr hero"
    by (simp_all add: found_def)
  have h4: "get_max_health hero = Inr (JInt 100)"
    by (simp add: hero_def get_max_health_def)
  have h5: "http mutations_rejected (progress_update_request 42 (JInt 100))
              = Inr (answer 500 ''no'')"
    by (simp add: mutations_rejected_def http_with_outcome)
  have h6: "http mutations_rejected enemy_reset_request = Inr (answer 503 ''busy'')"
    by (simp add: mutations_rejected_def http_with_outcome
          progress_update_request_def enemy_reset_request_def)
  show ?thesis
    using h1 h2 h3 h4 h5 h6 partial_reset_ignores_statuses [OF h1 h2 h3 h4 h5 h6]
    by simp
qed

subsection \<open>C10: the interaction-history step and the report\<close>

text \<open>
  Claim C10. The keys of \<^verbatim>\<open>reset_details\<close> are \<^verbatim>\<open>player\<close>, \<^verbatim>\<open>inventory\<close>, \<^verbatim>\<open>rooms\<close> and
  \<^verbatim>\<open>errors\<close>. A successful interaction-history reset leaves \<^verbatim>\<open>reset_results\<close> as it was;
  a failed one appends one entry to \<^verbatim>\<open>errors\<close> and changes nothing else. Whatever the
  outcome of that call is replaced by, the status of the response is the same: it is 200
  or 207 by \<^verbatim>\<open>player\<close>, \<^verbatim>\<open>inventory\<close> and \<^verbatim>\<open>rooms\<close> alone.
\<close>

theorem interaction_reset_outcome_is_only_an_error_entry:
  "map fst (jsonify_results r) = [''player'', ''inventory'', ''rooms'', ''errors'']
   \<and> (succeeded [200] (http w (interaction_reset_request pid)) \<longrightarrow>
        results (reset_interactions w pid s) = results s)
   \<and> (\<not> succeeded [200] (http w (interaction_reset_request pid)) \<longrightarrow>
        (\<exists>detail. results (reset_interactions w pid s) =
                    (results s)\<lparr>errors := errors (results s) @ [detail]\<rparr>))
   \<and> map_sum id status
        (fst (full_game_reset (with_outcome (interaction_reset_request pid) outcome w) pid))
       = map_sum id status (fst (full_game_reset w pid))
   \<and> status (report pid name r) = (if player r \<and> inventory r \<and> rooms r then 200 else 207)"
proof -
  let ?w = "with_outcome (interaction_reset_request pid) outcome w"
  have keys: "map fst (jsonify_results r) = [''player'', ''inventory'', ''rooms'', ''errors'']"
    by (simp add: jsonify_results_def)
  have ok: "results (reset_interactions w pid s) = results s"
    if "succeeded [200] (http w (interaction_reset_request pid))"
    using that
    by (simp add: reset_interactions_results interaction_entries_def succeeded_def
          split: sum.splits)
  have failed: "\<exists>detail. results (reset_interactions w pid s) =
                    (results s)\<lparr>errors := errors (results s) @ [detail]\<rparr>"
    if "\<not> succeeded [200] (http w (interaction_reset_request pid))"
  proof -
    from that have "\<exists>detail. interaction_entries w pid = [detail]"
      by (cases "http w (interaction_reset_request pid)")
         (simp_all add: interaction_entries_def succeeded_def)
    then show ?thesis
      by (auto simp: reset_interactions_results)
  qed
  have same: "map_sum id status (fst (full_game_reset ?w pid))
                = map_sum id status (fst (full_game_reset w pid))"
    by (intro full_game_reset_status_cong)
       (simp_all add: final_results_eq room_with_outcome http_with_outcome
          interaction_reset_request_def player_lookup_request_def player_update_request_def
          inventory_delete_request_def)
  show ?thesis
    using keys ok failed same status_report [of pid name r] by blast
qed

theorem interaction_reset_outcome_is_only_an_error_entry_witness:
  "succeeded [200] (http all_ok (interaction_reset_request 42))
   \<and> results (reset_interactions all_ok 42 (initial_state 42)) = initial_results
   \<and> \<not> succeeded [200] (http interaction_down (interaction_reset_request 42))
   \<and> (\<exists>detail. results (reset_interactions interaction_down 42 (initial_state 42)) =
                  initial_results\<lparr>errors := [detail]\<rparr>)
   \<and> map_sum id status (fst (full_game_reset interaction_down 42))
       = map_sum id status (fst (full_game_reset all_ok 42))"
proof -
  have ok: "succeeded [200] (http all_ok (interaction_reset_request 42))"
    by (simp add: succeeded_def all_ok_def answer_def interaction_reset_request_def
          player_lookup_request_def)
  have down: "\<not> succeeded [200] (http interaction_down (interaction_reset_request 42))"
    by (simp add: succeeded_def interaction_down_def http_with_outcome answer_def)
  show ?thesis
    using ok down
      interaction_reset_outcome_is_only_an_error_entry
        [where w = all_ok and pid = 42 and s = "initial_state 42"
           and outcome = "Inr (answer 500 ''down'')"]
      interaction_reset_outcome_is_only_an_error_entry
        [where w = interaction_down and pid = 42 and s = "initial_state 42"]
    by (simp add: initial_state_def initial_results_def interaction_down_def)
qed

end
